theory Spec2Isabelle
  imports Complex_Main
begin

section \<open>CityPulse: the normalisation and scoring pipeline\<close>

text \<open>
  A shallow embedding of the per-source normalisers (\<^verbatim>\<open>airQualityAPI.ts\<close>,
  \<^verbatim>\<open>earthquakeAPI.ts\<close>, \<^verbatim>\<open>weatherAPI.ts\<close>), of the diagnostic engine
  (\<^verbatim>\<open>diagnosticEngine.ts\<close>) and of the assembler \<^verbatim>\<open>processCityVitals\<close> of
  \<^verbatim>\<open>App.tsx\<close>.

  Conventions of the model:
  \<^item> a JavaScript \<^verbatim>\<open>number\<close> is an exact \<^typ>\<open>real\<close>: \<^verbatim>\<open>NaN\<close>, the infinities and the
    rounding of IEEE doubles are not modelled;
  \<^item> a union of string literals is a \<^theory_text>\<open>datatype\<close>, an object type a \<^theory_text>\<open>record\<close>;
  \<^item> a plain string is a \<^typ>\<open>string\<close> holding the bytes of the source text; a template
    literal with numeric holes is a list of fragments, so that \<^verbatim>\<open>toFixed\<close> and the
    conversion of a number to a string are recorded, not rendered;
  \<^item> what the code reads from its environment (\<^verbatim>\<open>Date.now()\<close>, \<^verbatim>\<open>Math.random()\<close>) is an
    explicit argument of the function that reads it.
\<close>

subsection \<open>Data model (\<^verbatim>\<open>types/index.ts\<close>)\<close>

datatype heartRate_status = HR_normal | HR_elevated | HR_critical
datatype temperature_status = T_normal | T_fever | T_critical
datatype bloodOxygen_status = AQ_healthy | AQ_unhealthy | AQ_hazardous
datatype immuneSystem_status = IS_strong | IS_weak | IS_compromised
datatype infections_status = INF_clean | INF_infected | INF_critical
datatype overallHealth_status = OH_excellent | OH_good | OH_fair | OH_poor | OH_critical

datatype activity_trend = TR_increasing | TR_stable | TR_decreasing
datatype bloodOxygen_trend = AQ_improving | AQ_stable | AQ_worsening
datatype immuneSystem_trend = IS_improving | IS_stable | IS_declining

datatype severity = SEV_low | SEV_medium | SEV_high | SEV_critical

text \<open>The string a status literal stands for (\<^verbatim>\<open>HealthScore.status\<close> is a plain string).\<close>

fun heartRate_status_string :: "heartRate_status \<Rightarrow> string" where
  "heartRate_status_string HR_normal = ''normal''"
| "heartRate_status_string HR_elevated = ''elevated''"
| "heartRate_status_string HR_critical = ''critical''"

fun temperature_status_string :: "temperature_status \<Rightarrow> string" where
  "temperature_status_string T_normal = ''normal''"
| "temperature_status_string T_fever = ''fever''"
| "temperature_status_string T_critical = ''critical''"

fun bloodOxygen_status_string :: "bloodOxygen_status \<Rightarrow> string" where
  "bloodOxygen_status_string AQ_healthy = ''healthy''"
| "bloodOxygen_status_string AQ_unhealthy = ''unhealthy''"
| "bloodOxygen_status_string AQ_hazardous = ''hazardous''"

fun immuneSystem_status_string :: "immuneSystem_status \<Rightarrow> string" where
  "immuneSystem_status_string IS_strong = ''strong''"
| "immuneSystem_status_string IS_weak = ''weak''"
| "immuneSystem_status_string IS_compromised = ''compromised''"

fun infections_status_string :: "infections_status \<Rightarrow> string" where
  "infections_status_string INF_clean = ''clean''"
| "infections_status_string INF_infected = ''infected''"
| "infections_status_string INF_critical = ''critical''"

text \<open>
  A template literal: literal text, \<^verbatim>\<open>${x.toFixed(d)}\<close> and \<^verbatim>\<open>${x}\<close>, in the order of the
  source.
\<close>

datatype fragment = Lit string | ToFixed real nat | NumberToString real

type_synonym template = "fragment list"

record HeartRate =
  "value" :: real
  status :: heartRate_status
  trend :: activity_trend
  description :: template

record Temperature =
  "value" :: real
  heatIslandEffect :: real
  status :: temperature_status
  trend :: activity_trend
  description :: template

record Pollutants =
  no2 :: real
  pm25 :: real
  o3 :: real

record BloodOxygen =
  "value" :: real
  pollutants :: Pollutants
  status :: bloodOxygen_status
  trend :: bloodOxygen_trend
  description :: template

record ImmuneSystem =
  greenSpaceCoverage :: real
  ndvi :: real
  status :: immuneSystem_status
  trend :: immuneSystem_trend
  description :: template

record Infections =
  disasterEvents :: real
  pollutionHotspots :: real
  status :: infections_status
  description :: template

record OverallHealth =
  score :: real
  status :: overallHealth_status
  diagnosis :: string
  recommendations :: "string list"

record CityVitals =
  heartRate :: HeartRate
  temperature :: Temperature
  bloodOxygen :: BloodOxygen
  immuneSystem :: ImmuneSystem
  infections :: Infections
  overallHealth :: OverallHealth

record LocationData =
  lat :: real
  lon :: real
  city :: "string option"
  country :: "string option"
  timestamp :: real

record HealthScore =
  category :: string
  score :: real
  weight :: real
  status :: string

record DiagnosticResult =
  overallScore :: real
  categoryScores :: "HealthScore list"
  diagnosis :: string
  recommendations :: "string list"
  severity :: severity

subsection \<open>The diagnostic engine (\<^verbatim>\<open>DiagnosticEngine\<close>)\<close>

text \<open>\<^verbatim>\<open>Math.round\<close>: the nearest integer, a tie going up.\<close>

definition Math_round :: "real \<Rightarrow> real" where
  "Math_round x = of_int \<lfloor>x + 1 / 2\<rfloor>"

record Category_Weights =
  w_heartRate :: real
  w_temperature :: real
  w_bloodOxygen :: real
  w_immuneSystem :: real
  w_infections :: real

definition CATEGORY_WEIGHTS :: Category_Weights where
  "CATEGORY_WEIGHTS =
     \<lparr>w_heartRate = 0.15, w_temperature = 0.20, w_bloodOxygen = 0.25,
      w_immuneSystem = 0.25, w_infections = 0.15\<rparr>"

definition calculateHeartRateScore :: "HeartRate \<Rightarrow> real" where
  "calculateHeartRateScore hr =
     (let score = HeartRate.value hr;
          score = (if HeartRate.trend hr = TR_increasing then score + 5
                   else if HeartRate.trend hr = TR_decreasing then score - 5
                   else score);
          score = (if HeartRate.status hr = HR_critical then score * 0.5
                   else if HeartRate.status hr = HR_elevated then score * 0.8
                   else score)
      in max 0 (min 100 score))"

definition calculateTemperatureScore :: "Temperature \<Rightarrow> real" where
  "calculateTemperatureScore t =
     (let score = 100;
          score = (if Temperature.value t > 35 then score - 30
                   else if Temperature.value t > 30 then score - 20
                   else if Temperature.value t > 25 then score - 10
                   else score);
          score = (if Temperature.heatIslandEffect t > 5 then score - 25
                   else if Temperature.heatIslandEffect t > 3 then score - 15
                   else if Temperature.heatIslandEffect t > 1 then score - 5
                   else score);
          score = (if Temperature.trend t = TR_increasing then score - 10
                   else if Temperature.trend t = TR_decreasing then score + 5
                   else score);
          score = (if Temperature.status t = T_critical then score * 0.3
                   else if Temperature.status t = T_fever then score * 0.6
                   else score)
      in max 0 (min 100 score))"

definition calculateAirQualityScore :: "BloodOxygen \<Rightarrow> real" where
  "calculateAirQualityScore b =
     (let score = 100 - BloodOxygen.value b;
          avgPollutants = (no2 (BloodOxygen.pollutants b) + pm25 (BloodOxygen.pollutants b) + o3 (BloodOxygen.pollutants b)) / 3;
          score = (if avgPollutants > 50 then score - 30
                   else if avgPollutants > 30 then score - 20
                   else if avgPollutants > 15 then score - 10
                   else score);
          score = (if BloodOxygen.trend b = AQ_worsening then score - 15
                   else if BloodOxygen.trend b = AQ_improving then score + 10
                   else score);
          score = (if BloodOxygen.status b = AQ_hazardous then score * 0.2
                   else if BloodOxygen.status b = AQ_unhealthy then score * 0.5
                   else score)
      in max 0 (min 100 score))"

definition calculateGreenSpaceScore :: "ImmuneSystem \<Rightarrow> real" where
  "calculateGreenSpaceScore im =
     (let score = greenSpaceCoverage im;
          score = (if ndvi im > 0.7 then score + 20
                   else if ndvi im > 0.5 then score + 10
                   else if ndvi im < 0.2 then score - 20
                   else score);
          score = (if ImmuneSystem.trend im = IS_improving then score + 10
                   else if ImmuneSystem.trend im = IS_declining then score - 15
                   else score);
          score = (if ImmuneSystem.status im = IS_compromised then score * 0.4
                   else if ImmuneSystem.status im = IS_weak then score * 0.7
                   else score)
      in max 0 (min 100 score))"

definition calculateInfectionsScore :: "Infections \<Rightarrow> real" where
  "calculateInfectionsScore infs =
     (let score = 100;
          totalHazards = Infections.disasterEvents infs + Infections.pollutionHotspots infs;
          score = score - totalHazards * 15;
          score = (if Infections.status infs = INF_critical then score * 0.2
                   else if Infections.status infs = INF_infected then score * 0.5
                   else score)
      in max 0 (min 100 score))"

definition calculateCategoryScores :: "CityVitals \<Rightarrow> HealthScore list" where
  "calculateCategoryScores vitals =
     [\<lparr>category = ''Heart Rate (Urban Activity)'',
       score = calculateHeartRateScore (heartRate vitals),
       weight = w_heartRate CATEGORY_WEIGHTS,
       status = heartRate_status_string (HeartRate.status (heartRate vitals))\<rparr>,
      \<lparr>category = ''Temperature (Heat Island)'',
       score = calculateTemperatureScore (temperature vitals),
       weight = w_temperature CATEGORY_WEIGHTS,
       status = temperature_status_string (Temperature.status (temperature vitals))\<rparr>,
      \<lparr>category = ''Air Quality'',
       score = calculateAirQualityScore (bloodOxygen vitals),
       weight = w_bloodOxygen CATEGORY_WEIGHTS,
       status = bloodOxygen_status_string (BloodOxygen.status (bloodOxygen vitals))\<rparr>,
      \<lparr>category = ''Green Space'',
       score = calculateGreenSpaceScore (immuneSystem vitals),
       weight = w_immuneSystem CATEGORY_WEIGHTS,
       status = immuneSystem_status_string (ImmuneSystem.status (immuneSystem vitals))\<rparr>,
      \<lparr>category = ''Environmental Hazards'',
       score = calculateInfectionsScore (infections vitals),
       weight = w_infections CATEGORY_WEIGHTS,
       status = infections_status_string (Infections.status (infections vitals))\<rparr>]"

definition calculateOverallScore :: "HealthScore list \<Rightarrow> real" where
  "calculateOverallScore scores =
     (let weightedSum =
            foldl (\<lambda>sum c. sum + HealthScore.score c * weight c) 0 scores
      in Math_round weightedSum)"

definition generateDiagnosisText :: "real \<Rightarrow> CityVitals \<Rightarrow> string" where
  "generateDiagnosisText score' vitals =
     (if score' \<ge> 90 then
        ''This city is in excellent health! All vital signs are strong, showing a well-balanced urban ecosystem with good air quality, adequate green space, and minimal environmental hazards.''
      else if score' \<ge> 75 then
        ''The city shows good overall health with minor areas for improvement. Most vital signs are within normal ranges, but there may be some environmental concerns to address.''
      else if score' \<ge> 60 then
        ''The city's health is fair but requires attention. Several vital signs indicate moderate stress, particularly in air quality or heat management. Immediate action is recommended.''
      else if score' \<ge> 40 then
        ''The city is showing signs of poor health with multiple concerning vital signs. Environmental stress is evident, and comprehensive intervention is needed to restore urban wellness.''
      else
        ''CRITICAL: The city is in poor health with multiple critical vital signs. Immediate environmental intervention is required to prevent further degradation of urban health.'')"

definition determineSeverity :: "real \<Rightarrow> severity" where
  "determineSeverity score' =
     (if score' \<ge> 75 then SEV_low
      else if score' \<ge> 60 then SEV_medium
      else if score' \<ge> 40 then SEV_high
      else SEV_critical)"

text \<open>
  \<^verbatim>\<open>generateRecommendations\<close> pushes onto a local array, block after block, and returns
  \<^verbatim>\<open>slice(0, 5)\<close>. The strings are the bytes of the source file (the pictograms in front
  of each sentence are stored there as multi-byte sequences).
\<close>

definition generateRecommendations :: "CityVitals \<Rightarrow> HealthScore list \<Rightarrow> string list" where
  "generateRecommendations vitals scores =
     (let recs = [];
          recs = (if BloodOxygen.status (bloodOxygen vitals) = AQ_hazardous
                     \<or> BloodOxygen.status (bloodOxygen vitals) = AQ_unhealthy
                  then recs @
                    [[CHR 0xC3, CHR 0xB0, CHR 0xC5, CHR 0xB8, CHR 0xC5, CHR 0xA1, CHR 0xE2, CHR 0x80, CHR 0x94] @ '' Implement low-emission zones and promote electric vehicle adoption'',
                     [CHR 0xC3, CHR 0xB0, CHR 0xC5, CHR 0xB8, CHR 0xC5, CHR 0x92, CHR 0xC2, CHR 0xB3] @ '' Increase urban tree canopy to filter air pollutants'',
                     [CHR 0xC3, CHR 0xB0, CHR 0xC5, CHR 0xB8, CHR 0xC5, CHR 0xA1, CHR 0xC2, CHR 0xB4] @ '' Develop comprehensive bike lane networks to reduce vehicle emissions'']
                  else recs);
          recs = (if Temperature.status (temperature vitals) = T_critical
                     \<or> Temperature.status (temperature vitals) = T_fever
                  then recs @
                    [[CHR 0xC3, CHR 0xB0, CHR 0xC5, CHR 0xB8, CHR 0xC2, CHR 0xA2] @ '' Mandate cool roof technologies for new and existing buildings'',
                     [CHR 0xC3, CHR 0xB0, CHR 0xC5, CHR 0xB8, CHR 0xC5, CHR 0x92, CHR 0xC2, CHR 0xBF] @ '' Create green corridors to channel cool air through the city'',
                     [CHR 0xC3, CHR 0xB0, CHR 0xC5, CHR 0xB8, CHR 0xE2, CHR 0x80, CHR 0x99, CHR 0xC2, CHR 0xA7] @ '' Implement water features and reflective surfaces in public spaces'']
                  else recs);
          recs = (if ImmuneSystem.status (immuneSystem vitals) = IS_weak
                     \<or> ImmuneSystem.status (immuneSystem vitals) = IS_compromised
                  then recs @
                    [[CHR 0xC3, CHR 0xB0, CHR 0xC5, CHR 0xB8, CHR 0xC5, CHR 0x92, CHR 0xC2, CHR 0xB3] @ '' Establish pocket parks and community gardens in underserved areas'',
                     [CHR 0xC3, CHR 0xB0, CHR 0xC5, CHR 0xB8, CHR 0xE2, CHR 0x80, CHR 0xBA, CHR 0xC2, CHR 0xA4, CHR 0xC3, CHR 0xAF, CHR 0xC2, CHR 0xB8] @ '' Develop green infrastructure corridors connecting parks and natural areas'',
                     [CHR 0xC3, CHR 0xB0, CHR 0xC5, CHR 0xB8, CHR 0xCB, CHR 0x9C, CHR 0xC3, CHR 0xAF, CHR 0xC2, CHR 0xB8] @ '' Require green space minimums in new development projects'']
                  else recs);
          recs = (if Infections.status (infections vitals) = INF_critical
                     \<or> Infections.status (infections vitals) = INF_infected
                  then recs @
                    [[CHR 0xC3, CHR 0xB0, CHR 0xC5, CHR 0xB8, CHR 0xE2, CHR 0x80, CHR 0xBA, CHR 0xC2, CHR 0xA1, CHR 0xC3, CHR 0xAF, CHR 0xC2, CHR 0xB8] @ '' Strengthen infrastructure resilience against natural disasters'',
                     [CHR 0xC3, CHR 0xB0, CHR 0xC5, CHR 0xB8, CHR 0xE2, CHR 0x80, CHR 0x9C, CHR 0xC5, CHR 0xA0] @ '' Implement early warning systems for environmental hazards'',
                     [CHR 0xC3, CHR 0xB0, CHR 0xC5, CHR 0xB8, CHR 0xE2, CHR 0x80, CHR 0x94, CHR 0xC3, CHR 0xAF, CHR 0xC2, CHR 0xB8] @ '' Develop climate-adaptive building codes and zoning regulations'']
                  else recs);
          recs = (if HeartRate.status (heartRate vitals) = HR_critical
                     \<or> HeartRate.status (heartRate vitals) = HR_elevated
                  then recs @
                    [[CHR 0xC3, CHR 0xB0, CHR 0xC5, CHR 0xB8, CHR 0xE2, CHR 0x84, CHR 0xA2, CHR 0xC3, CHR 0xAF, CHR 0xC2, CHR 0xB8] @ '' Promote mixed-use development to reduce urban sprawl'',
                     [CHR 0xC3, CHR 0xB0, CHR 0xC5, CHR 0xB8, CHR 0xC5, CHR 0xA1, CHR 0xC5, CHR 0x92] @ '' Improve public transportation to reduce traffic congestion'',
                     [CHR 0xC3, CHR 0xB0, CHR 0xC5, CHR 0xB8, CHR 0xE2, CHR 0x80, CHR 0x99, CHR 0xC2, CHR 0xA1] @ '' Implement smart city technologies for efficient resource management'']
                  else recs);
          recs = (if length recs = 0
                  then recs @
                    [[CHR 0xC3, CHR 0xA2, CHR 0xC5, CHR 0x93, CHR 0xE2, CHR 0x80, CHR 0xA6] @ '' Continue monitoring urban health indicators'',
                     [CHR 0xC3, CHR 0xB0, CHR 0xC5, CHR 0xB8, CHR 0xE2, CHR 0x80, CHR 0x9C, CHR 0xCB, CHR 0x86] @ '' Set up long-term environmental monitoring systems'',
                     [CHR 0xC3, CHR 0xB0, CHR 0xC5, CHR 0xB8, CHR 0xC2, CHR 0xA4] @ '' Engage community in urban health initiatives'']
                  else recs)
      in take 5 recs)"

definition generateDiagnosis :: "CityVitals \<Rightarrow> DiagnosticResult" where
  "generateDiagnosis vitals =
     (let scores = calculateCategoryScores vitals;
          overall = calculateOverallScore scores;
          text = generateDiagnosisText overall vitals;
          recs = generateRecommendations vitals scores;
          sev = determineSeverity overall
      in \<lparr>overallScore = overall,
          categoryScores = scores,
          diagnosis = text,
          recommendations = recs,
          severity = sev\<rparr>)"

subsection \<open>The air-quality normaliser (\<^verbatim>\<open>AirQualityService\<close>)\<close>

text \<open>
  \<^verbatim>\<open>OpenAQResponse\<close>. The code tests \<^verbatim>\<open>!response.results\<close> and filters out measurements
  whose value is \<^verbatim>\<open>null\<close> or \<^verbatim>\<open>undefined\<close>, so both may be absent.
\<close>

record Measurement =
  parameter :: string
  "value" :: "real option"
  unit :: string
  lastUpdated :: string

record Station =
  location :: string
  measurements :: "Measurement list"

record OpenAQResponse =
  results :: "Station list option"

record AirQuality =
  aqi :: real
  pollutants :: Pollutants
  status :: bloodOxygen_status
  trend :: bloodOxygen_trend

definition getAverageMeasurement :: "Measurement list \<Rightarrow> string \<Rightarrow> real" where
  "getAverageMeasurement ms p =
     (let values = map the (filter (\<lambda>v. v \<noteq> None)
                     (map Measurement.value (filter (\<lambda>m. parameter m = p) ms)))
      in if length values = 0 then 0
         else foldl (\<lambda>sum val. sum + val) 0 values / real (length values))"

definition calculateAQI :: "Pollutants \<Rightarrow> real" where
  "calculateAQI ps =
     (let pm = pm25 ps
      in if pm \<le> 12 then max 0 ((pm / 12) * 50)
         else if pm \<le> 35.4 then 50 + ((pm - 12) / 23.4) * 50
         else if pm \<le> 55.4 then 100 + ((pm - 35.4) / 20) * 50
         else if pm \<le> 150.4 then 150 + ((pm - 55.4) / 95) * 100
         else if pm \<le> 250.4 then 250 + ((pm - 150.4) / 100) * 100
         else min 500 (350 + ((pm - 250.4) / 149.6) * 150))"

definition determineAirQualityStatus :: "real \<Rightarrow> bloodOxygen_status" where
  "determineAirQualityStatus a =
     (if a \<le> 50 then AQ_healthy
      else if a \<le> 150 then AQ_unhealthy
      else AQ_hazardous)"

definition determineTrend :: "Pollutants \<Rightarrow> bloodOxygen_trend" where
  "determineTrend ps =
     (let avgPollution = (no2 ps + pm25 ps + o3 ps) / 3
      in if avgPollution < 10 then AQ_improving
         else if avgPollution > 30 then AQ_worsening
         else AQ_stable)"

definition processAirQualityData :: "OpenAQResponse \<Rightarrow> AirQuality" where
  "processAirQualityData response =
     (case results response of
        None \<Rightarrow>
          \<lparr>aqi = 0, pollutants = \<lparr>no2 = 0, pm25 = 0, o3 = 0\<rparr>,
           status = AQ_healthy, trend = AQ_stable\<rparr>
      | Some rs \<Rightarrow>
          if length rs = 0 then
            \<lparr>aqi = 0, pollutants = \<lparr>no2 = 0, pm25 = 0, o3 = 0\<rparr>,
             status = AQ_healthy, trend = AQ_stable\<rparr>
          else
            (let ms = concat (map measurements rs);
                 ps = \<lparr>no2 = getAverageMeasurement ms ''no2'',
                       pm25 = getAverageMeasurement ms ''pm25'',
                       o3 = getAverageMeasurement ms ''o3''\<rparr>;
                 a = calculateAQI ps;
                 st = determineAirQualityStatus a;
                 tr = determineTrend ps
             in \<lparr>aqi = a, pollutants = ps, status = st, trend = tr\<rparr>))"

subsection \<open>The seismic normaliser (\<^verbatim>\<open>EarthquakeService\<close>)\<close>

text \<open>
  \<^verbatim>\<open>USGSEarthquakeResponse\<close>, with the fields of an event that the normaliser can tell apart;
  \<^verbatim>\<open>time\<close> is the event's epoch time in milliseconds, an integer. The code tests
  \<^verbatim>\<open>!response.features\<close>, so the list may be absent.
\<close>

record EarthquakeProperties =
  mag :: real
  place :: string
  time :: int

record Feature =
  properties :: EarthquakeProperties
  id :: string

record USGSEarthquakeResponse =
  features :: "Feature list option"

record DisasterData =
  disasterEvents :: real
  pollutionHotspots :: real
  status :: infections_status
  description :: template

text \<open>
  \<^verbatim>\<open>new Date(t).getTime()\<close>: a time value beyond 8.64e15 ms on either side of the epoch is
  not a date and reads as \<^verbatim>\<open>NaN\<close>, here \<^term>\<open>None\<close>.
\<close>

definition Date_getTime :: "int \<Rightarrow> int option" where
  "Date_getTime t = (if \<bar>t\<bar> \<le> 8640000000000000 then Some t else None)"

text \<open>The filter's predicate; a comparison with \<^verbatim>\<open>NaN\<close> is false.\<close>

definition isRecent :: "int \<Rightarrow> Feature \<Rightarrow> bool" where
  "isRecent now earthquake =
     (case Date_getTime (time (properties earthquake)) of
        None \<Rightarrow> False
      | Some eventTime \<Rightarrow>
          (let daysAgo = real_of_int (now - eventTime) / (1000 * 60 * 60 * 24)
           in daysAgo \<le> 30))"

definition processEarthquakeData :: "int \<Rightarrow> USGSEarthquakeResponse \<Rightarrow> DisasterData" where
  "processEarthquakeData now response =
     (case features response of
        None \<Rightarrow>
          \<lparr>disasterEvents = 0, pollutionHotspots = 0, status = INF_clean,
           description = [Lit ''No recent natural disasters detected in the area.'']\<rparr>
      | Some fs \<Rightarrow>
          if length fs = 0 then
            \<lparr>disasterEvents = 0, pollutionHotspots = 0, status = INF_clean,
             description = [Lit ''No recent natural disasters detected in the area.'']\<rparr>
          else
            (let recentEarthquakes = filter (isRecent now) fs;
                 n = real (length recentEarthquakes);
                 hotspots = 0
             in if n = 0 then
                  \<lparr>disasterEvents = n, pollutionHotspots = hotspots, status = INF_clean,
                   description = [Lit ''No recent natural disasters detected in the area.'']\<rparr>
                else if n \<le> 2 then
                  \<lparr>disasterEvents = n, pollutionHotspots = hotspots, status = INF_infected,
                   description = [Lit ''Low disaster activity: '', NumberToString n,
                                  Lit '' earthquake(s) in the last 30 days.'']\<rparr>
                else
                  \<lparr>disasterEvents = n, pollutionHotspots = hotspots, status = INF_critical,
                   description = [Lit ''High disaster activity: '', NumberToString n,
                                  Lit '' earthquake(s) in the last 30 days.'']\<rparr>))"

subsection \<open>The weather normaliser (\<^verbatim>\<open>WeatherService\<close>)\<close>

record WeatherMain =
  temp :: real
  feels_like :: real
  temp_min :: real
  temp_max :: real
  pressure :: real
  humidity :: real

record Coord =
  lon :: real
  lat :: real

record WeatherResponse =
  main :: WeatherMain
  coord :: Coord
  name :: string

record TemperatureData =
  temperature :: real
  heatIslandEffect :: real
  status :: temperature_status
  trend :: activity_trend
  description :: template

definition estimateHeatIslandEffect :: "real \<Rightarrow> real" where
  "estimateHeatIslandEffect t =
     (if t > 35 then 5.0
      else if t > 30 then 3.0
      else if t > 25 then 1.5
      else if t > 20 then 0.5
      else 0)"

definition determineTemperatureStatus :: "real \<Rightarrow> temperature_status" where
  "determineTemperatureStatus t =
     (if t > 40 then T_critical
      else if t > 35 then T_fever
      else T_normal)"

definition determineTemperatureTrend :: "real \<Rightarrow> activity_trend" where
  "determineTemperatureTrend t =
     (if t > 30 then TR_increasing
      else if t < 15 then TR_decreasing
      else TR_stable)"

definition generateTemperatureDescription :: "real \<Rightarrow> real \<Rightarrow> string \<Rightarrow> template" where
  "generateTemperatureDescription t hie st =
     (let d = [Lit ''Current temperature: '', ToFixed t 1, Lit ([CHR 0xC2, CHR 0xB0] @ ''C'')];
          d = (if hie > 3 then
                 d @ [Lit ''. Strong urban heat island effect detected (+'', ToFixed hie 1,
                      Lit ([CHR 0xC2, CHR 0xB0] @ ''C above surrounding areas).'')]
               else if hie > 1 then
                 d @ [Lit ''. Moderate heat island effect (+'', ToFixed hie 1,
                      Lit ([CHR 0xC2, CHR 0xB0] @ ''C).'')]
               else d @ [Lit ''. Minimal heat island effect.'']);
          d = (if st = ''critical'' then
                 d @ [Lit '' CRITICAL: Extreme heat conditions require immediate attention.'']
               else if st = ''fever'' then
                 d @ [Lit '' Elevated temperatures detected - heat management needed.'']
               else d)
      in d)"

definition processWeatherData :: "WeatherResponse \<Rightarrow> TemperatureData" where
  "processWeatherData response =
     (let t = temp (main response);
          hie = estimateHeatIslandEffect t;
          st = determineTemperatureStatus t;
          tr = determineTemperatureTrend t;
          d = generateTemperatureDescription t hie (temperature_status_string st)
      in \<lparr>temperature = t, heatIslandEffect = hie, status = st, trend = tr,
          description = d\<rparr>)"

subsection \<open>The assembler (\<^verbatim>\<open>processCityVitals\<close>)\<close>

datatype 'a PromiseSettledResult = Fulfilled 'a | Rejected string

text \<open>
  The status given to \<^verbatim>\<open>overallHealth\<close>: the conditional expression on
  \<^verbatim>\<open>diagnosis.severity\<close> at the end of \<^verbatim>\<open>processCityVitals\<close>.
\<close>

definition overallHealthStatus :: "severity \<Rightarrow> overallHealth_status" where
  "overallHealthStatus sev =
     (if sev = SEV_low then OH_excellent
      else if sev = SEV_medium then OH_good
      else if sev = SEV_high then OH_fair
      else OH_poor)"

text \<open>
  \<^verbatim>\<open>processCityVitals\<close> reads the clock once (inside \<^verbatim>\<open>processEarthquakeData\<close>) and draws
  three random numbers, in this order: for \<^verbatim>\<open>heartRate.value\<close>, for
  \<^verbatim>\<open>immuneSystem.greenSpaceCoverage\<close> and for \<^verbatim>\<open>immuneSystem.ndvi\<close>. They are the
  arguments \<open>now\<close>, \<open>r1\<close>, \<open>r2\<close> and \<open>r3\<close>.
\<close>

definition processCityVitals ::
  "int \<Rightarrow> real \<Rightarrow> real \<Rightarrow> real \<Rightarrow> LocationData \<Rightarrow> OpenAQResponse PromiseSettledResult \<Rightarrow>
   USGSEarthquakeResponse PromiseSettledResult \<Rightarrow> WeatherResponse PromiseSettledResult \<Rightarrow>
   CityVitals" where
  "processCityVitals now r1 r2 r3 loc airQualityResult earthquakeResult weatherResult =
     (let airQuality =
            (case airQualityResult of
               Fulfilled v \<Rightarrow> processAirQualityData v
             | Rejected _ \<Rightarrow>
                 \<lparr>aqi = 0, pollutants = \<lparr>no2 = 0, pm25 = 0, o3 = 0\<rparr>,
                  status = AQ_healthy, trend = AQ_stable\<rparr>);
          disasterData =
            (case earthquakeResult of
               Fulfilled v \<Rightarrow> processEarthquakeData now v
             | Rejected _ \<Rightarrow>
                 \<lparr>disasterEvents = 0, pollutionHotspots = 0, status = INF_clean,
                  description = [Lit ''No recent natural disasters detected.'']\<rparr>);
          temperatureData =
            (case weatherResult of
               Fulfilled v \<Rightarrow> processWeatherData v
             | Rejected _ \<Rightarrow>
                 \<lparr>temperature = 20, heatIslandEffect = 0, status = T_normal,
                  trend = TR_stable,
                  description = [Lit ''Temperature data unavailable.'']\<rparr>);
          mockVitals =
            \<lparr>heartRate =
               \<lparr>HeartRate.value = of_int \<lfloor>r1 * 40\<rfloor> + 60,
                status = HR_normal,
                trend = TR_stable,
                description = [Lit ''Urban activity levels are normal based on nighttime light intensity.'']\<rparr>,
             temperature =
               \<lparr>Temperature.value = TemperatureData.temperature temperatureData,
                heatIslandEffect = TemperatureData.heatIslandEffect temperatureData,
                status = TemperatureData.status temperatureData,
                trend = TemperatureData.trend temperatureData,
                description = TemperatureData.description temperatureData\<rparr>,
             bloodOxygen =
               \<lparr>BloodOxygen.value = aqi airQuality,
                pollutants = AirQuality.pollutants airQuality,
                status = AirQuality.status airQuality,
                trend = AirQuality.trend airQuality,
                description =
                  [Lit ''Air quality index: '', ToFixed (aqi airQuality) 0, Lit ''. '',
                   Lit (if AirQuality.status airQuality = AQ_healthy then ''Good air quality.''
                        else ''Air quality concerns detected.'')]\<rparr>,
             immuneSystem =
               \<lparr>greenSpaceCoverage = of_int \<lfloor>r2 * 30\<rfloor> + 10,
                ndvi = r3 * 0.8 + 0.2,
                status = IS_strong,
                trend = IS_stable,
                description = [Lit ''Vegetation coverage and health are within normal ranges.'']\<rparr>,
             infections =
               \<lparr>Infections.disasterEvents = DisasterData.disasterEvents disasterData,
                pollutionHotspots = DisasterData.pollutionHotspots disasterData,
                status = DisasterData.status disasterData,
                description = DisasterData.description disasterData\<rparr>,
             overallHealth =
               \<lparr>OverallHealth.score = 0, status = OH_fair, diagnosis = [],
                recommendations = []\<rparr>\<rparr>;
          diag = generateDiagnosis mockVitals
      in mockVitals\<lparr>overallHealth :=
           \<lparr>OverallHealth.score = overallScore diag,
            status = overallHealthStatus (DiagnosticResult.severity diag),
            diagnosis = DiagnosticResult.diagnosis diag,
            recommendations = DiagnosticResult.recommendations diag\<rparr>\<rparr>)"

subsection \<open>Reference notions and sample inputs\<close>

text \<open>
  The generic list pushed when no condition has triggered (the last block of
  \<^verbatim>\<open>generateRecommendations\<close>).
\<close>

definition keepMonitoring :: "string list" where
  "keepMonitoring =
     [[CHR 0xC3, CHR 0xA2, CHR 0xC5, CHR 0x93, CHR 0xE2, CHR 0x80, CHR 0xA6] @ '' Continue monitoring urban health indicators'',
      [CHR 0xC3, CHR 0xB0, CHR 0xC5, CHR 0xB8, CHR 0xE2, CHR 0x80, CHR 0x9C, CHR 0xCB, CHR 0x86] @ '' Set up long-term environmental monitoring systems'',
      [CHR 0xC3, CHR 0xB0, CHR 0xC5, CHR 0xB8, CHR 0xC2, CHR 0xA4] @ '' Engage community in urban health initiatives'']"



definition healthy_city :: CityVitals where
  "healthy_city =
     \<lparr>heartRate = \<lparr>HeartRate.value = 100, status = HR_normal, trend = TR_stable,
                   description = []\<rparr>,
      temperature = \<lparr>Temperature.value = 20, Temperature.heatIslandEffect = 0,
                     status = T_normal, trend = TR_stable, description = []\<rparr>,
      bloodOxygen = \<lparr>BloodOxygen.value = 0, pollutants = \<lparr>no2 = 0, pm25 = 0, o3 = 0\<rparr>,
                     status = AQ_healthy, trend = AQ_stable, description = []\<rparr>,
      immuneSystem = \<lparr>greenSpaceCoverage = 100, ndvi = 0.3, status = IS_strong,
                      trend = IS_stable, description = []\<rparr>,
      infections = \<lparr>Infections.disasterEvents = 0, pollutionHotspots = 0, status = INF_clean,
                    description = []\<rparr>,
      overallHealth = \<lparr>OverallHealth.score = 0, status = OH_fair, diagnosis = [],
                       recommendations = []\<rparr>\<rparr>"





definition scorching :: WeatherResponse where
  "scorching =
     \<lparr>main = \<lparr>temp = 1000, feels_like = 1000, temp_min = 1000, temp_max = 1000,
              pressure = 1013, humidity = 40\<rparr>,
      coord = \<lparr>Coord.lon = 2.35, lat = 48.85\<rparr>,
      name = ''Paris''\<rparr>"




section \<open>Verification\<close>

subsection \<open>The overall score\<close>





subsection \<open>The recommendations\<close>

lemma slice_after_fallback:
  "1 \<le> length (take 5 (if length r = 0 then r @ [a, b, c] else r))
   \<and> length (take 5 (if length r = 0 then r @ [a, b, c] else r)) \<le> 5"
  by (cases r) simp_all

lemma recommendations_length:
  "1 \<le> length (generateRecommendations v cs) \<and> length (generateRecommendations v cs) \<le> 5"
  unfolding generateRecommendations_def Let_def by (rule slice_after_fallback)

lemma recommendations_fallback:
  "HeartRate.status (heartRate v) = HR_normal \<Longrightarrow>
   BloodOxygen.status (bloodOxygen v) = AQ_healthy \<Longrightarrow>
   Temperature.status (CityVitals.temperature v) = T_normal \<Longrightarrow>
   ImmuneSystem.status (immuneSystem v) = IS_strong \<Longrightarrow>
   Infections.status (infections v) = INF_clean \<Longrightarrow>
   generateRecommendations v cs = keepMonitoring"
  unfolding generateRecommendations_def Let_def keepMonitoring_def by simp

lemma recommendations_of_diagnosis:
  "DiagnosticResult.recommendations (generateDiagnosis v) =
     generateRecommendations v (calculateCategoryScores v)"
  by (simp add: generateDiagnosis_def Let_def)

text \<open>
  Claim C2. For every vitals record the diagnosis carries at least one and at most five
  recommendations; when every status is the good one (heart rate normal, blood oxygen
  healthy, temperature normal, immune system strong, infections clean) the recommendations
  are exactly the three generic "keep monitoring" items.
\<close>

theorem recommendations_bounded_with_fallback:
  "1 \<le> length (DiagnosticResult.recommendations (generateDiagnosis v))
   \<and> length (DiagnosticResult.recommendations (generateDiagnosis v)) \<le> 5
   \<and> (HeartRate.status (heartRate v) = HR_normal
        \<and> BloodOxygen.status (bloodOxygen v) = AQ_healthy
        \<and> Temperature.status (CityVitals.temperature v) = T_normal
        \<and> ImmuneSystem.status (immuneSystem v) = IS_strong
        \<and> Infections.status (infections v) = INF_clean
      \<longrightarrow> DiagnosticResult.recommendations (generateDiagnosis v) = keepMonitoring)
   \<and> length keepMonitoring = 3"
  using recommendations_length [of v "calculateCategoryScores v"]
        recommendations_fallback [of v "calculateCategoryScores v"]
  by (simp add: recommendations_of_diagnosis) (simp add: keepMonitoring_def)

theorem recommendations_bounded_with_fallback_witness:
  "HeartRate.status (heartRate healthy_city) = HR_normal
   \<and> BloodOxygen.status (bloodOxygen healthy_city) = AQ_healthy
   \<and> Temperature.status (CityVitals.temperature healthy_city) = T_normal
   \<and> ImmuneSystem.status (immuneSystem healthy_city) = IS_strong
   \<and> Infections.status (infections healthy_city) = INF_clean
   \<and> DiagnosticResult.recommendations (generateDiagnosis healthy_city) = keepMonitoring
   \<and> length (DiagnosticResult.recommendations (generateDiagnosis healthy_city)) = 3"
  using recommendations_bounded_with_fallback [of healthy_city]
  by (simp add: healthy_city_def)

subsection \<open>Determinism of the diagnosis\<close>





lemma severity_of_score:
  "DiagnosticResult.severity (generateDiagnosis m) =
     determineSeverity (DiagnosticResult.overallScore (generateDiagnosis m))"
  by (simp add: generateDiagnosis_def Let_def)





subsection \<open>The air quality index\<close>

lemma aqi_mono_aux:
  "pm25 p \<le> pm25 q \<Longrightarrow> calculateAQI p \<le> calculateAQI q"
  unfolding calculateAQI_def Let_def min_def max_def
  by (simp split: if_splits add: field_simps)

lemma aqi_slope_aux:
  "pm25 p \<le> pm25 q \<Longrightarrow> calculateAQI q - calculateAQI p \<le> (25 / 6) * (pm25 q - pm25 p)"
  unfolding calculateAQI_def Let_def min_def max_def
  by (simp split: if_splits add: field_simps)

lemma aqi_lipschitz:
  "\<bar>calculateAQI p - calculateAQI q\<bar> \<le> (25 / 6) * \<bar>pm25 p - pm25 q\<bar>"
proof (cases "pm25 p \<le> pm25 q")
  case True
  from aqi_mono_aux [OF True] aqi_slope_aux [OF True] True show ?thesis by simp
next
  case False
  then have le: "pm25 q \<le> pm25 p" by simp
  from aqi_mono_aux [OF le] aqi_slope_aux [OF le] le show ?thesis by simp
qed

lemma aqi_bounds: "0 \<le> calculateAQI p \<and> calculateAQI p \<le> 500"
  unfolding calculateAQI_def Let_def min_def max_def
  by (simp split: if_splits add: field_simps)

lemma aqi_isCont: "isCont (\<lambda>x. calculateAQI (p\<lparr>pm25 := x\<rparr>)) a"
  unfolding isCont_def
proof (rule LIM_I)
  fix r :: real assume r: "0 < r"
  show "\<exists>s>0. \<forall>x. x \<noteq> a \<and> norm (x - a) < s \<longrightarrow>
          norm (calculateAQI (p\<lparr>pm25 := x\<rparr>) - calculateAQI (p\<lparr>pm25 := a\<rparr>)) < r"
  proof (intro exI conjI allI impI)
    show "0 < r * (6 / 25)" using r by simp
  next
    fix x assume "x \<noteq> a \<and> norm (x - a) < r * (6 / 25)"
    then have "\<bar>x - a\<bar> < r * (6 / 25)" by simp
    moreover have "\<bar>calculateAQI (p\<lparr>pm25 := x\<rparr>) - calculateAQI (p\<lparr>pm25 := a\<rparr>)\<bar>
                     \<le> (25 / 6) * \<bar>x - a\<bar>"
      using aqi_lipschitz [of "p\<lparr>pm25 := x\<rparr>" "p\<lparr>pm25 := a\<rparr>"] by simp
    ultimately
    show "norm (calculateAQI (p\<lparr>pm25 := x\<rparr>) - calculateAQI (p\<lparr>pm25 := a\<rparr>)) < r"
      by simp
  qed
qed

lemma aqi_breakpoints:
  "calculateAQI (p\<lparr>pm25 := 12\<rparr>) = 50"
  "calculateAQI (p\<lparr>pm25 := 35.4\<rparr>) = 100"
  "calculateAQI (p\<lparr>pm25 := 55.4\<rparr>) = 150"
  "calculateAQI (p\<lparr>pm25 := 150.4\<rparr>) = 250"
  "calculateAQI (p\<lparr>pm25 := 250.4\<rparr>) = 350"
  by (simp_all add: calculateAQI_def)

text \<open>
  Claim C4. As a function of PM2.5 the index is continuous everywhere, so in particular at
  each breakpoint, where it takes the values 50 (at 12), 100 (at 35.4), 150 (at 55.4),
  250 (at 150.4) and 350 (at 250.4); it is monotonically non-decreasing in PM2.5 and never
  exceeds 500. This holds for every real PM2.5, the non-negative ones included.
\<close>

theorem aqi_continuous_monotone_capped:
  "calculateAQI (p\<lparr>pm25 := 12\<rparr>) = 50
   \<and> calculateAQI (p\<lparr>pm25 := 35.4\<rparr>) = 100
   \<and> calculateAQI (p\<lparr>pm25 := 55.4\<rparr>) = 150
   \<and> calculateAQI (p\<lparr>pm25 := 150.4\<rparr>) = 250
   \<and> calculateAQI (p\<lparr>pm25 := 250.4\<rparr>) = 350
   \<and> isCont (\<lambda>x. calculateAQI (p\<lparr>pm25 := x\<rparr>)) a
   \<and> (pm25 p \<le> pm25 q \<longrightarrow> calculateAQI p \<le> calculateAQI q)
   \<and> calculateAQI p \<le> 500"
  using aqi_breakpoints [of p] aqi_isCont [where p = p and a = a] aqi_mono_aux [of p q]
        aqi_bounds [of p]
  by blast

theorem aqi_continuous_monotone_capped_witness:
  "pm25 \<lparr>no2 = 20, pm25 = 12, o3 = 30\<rparr> \<le> pm25 \<lparr>no2 = 20, pm25 = 300, o3 = 30\<rparr>
   \<and> calculateAQI \<lparr>no2 = 20, pm25 = 12, o3 = 30\<rparr>
        \<le> calculateAQI \<lparr>no2 = 20, pm25 = 300, o3 = 30\<rparr>
   \<and> calculateAQI \<lparr>no2 = 20, pm25 = 12, o3 = 30\<rparr> = 50
   \<and> calculateAQI \<lparr>no2 = 20, pm25 = 300, o3 = 30\<rparr> \<le> 500"
  using aqi_continuous_monotone_capped
          [where p = "\<lparr>no2 = 20, pm25 = 12, o3 = 30\<rparr>" and a = 12
             and q = "\<lparr>no2 = 20, pm25 = 300, o3 = 30\<rparr>"]
        aqi_continuous_monotone_capped
          [where p = "\<lparr>no2 = 20, pm25 = 300, o3 = 30\<rparr>" and a = 12
             and q = "\<lparr>no2 = 20, pm25 = 300, o3 = 30\<rparr>"]
  by simp

subsection \<open>The assembler\<close>

lemma overallHealth_of_pipeline:
  "\<exists>m. processCityVitals now r1 r2 r3 loc a e w =
         m\<lparr>overallHealth :=
             \<lparr>OverallHealth.score = DiagnosticResult.overallScore (generateDiagnosis m),
              status = overallHealthStatus (DiagnosticResult.severity (generateDiagnosis m)),
              diagnosis = DiagnosticResult.diagnosis (generateDiagnosis m),
              recommendations = DiagnosticResult.recommendations (generateDiagnosis m)\<rparr>\<rparr>"
  unfolding processCityVitals_def Let_def by (rule exI) (rule refl)









subsection \<open>Status bands of the normalisers\<close>

text \<open>
  Claim C6. The air-quality status is healthy exactly when the index is at most 50,
  unhealthy exactly when it is above 50 and at most 150, and hazardous exactly when it is
  above 150; so 50 is healthy, 51 and 150 are unhealthy, 151 is hazardous.
\<close>

theorem air_quality_status_bands:
  "(determineAirQualityStatus x = AQ_healthy \<longleftrightarrow> x \<le> 50)
   \<and> (determineAirQualityStatus x = AQ_unhealthy \<longleftrightarrow> 50 < x \<and> x \<le> 150)
   \<and> (determineAirQualityStatus x = AQ_hazardous \<longleftrightarrow> 150 < x)
   \<and> determineAirQualityStatus 50 = AQ_healthy
   \<and> determineAirQualityStatus 51 = AQ_unhealthy
   \<and> determineAirQualityStatus 150 = AQ_unhealthy
   \<and> determineAirQualityStatus 151 = AQ_hazardous"
  by (simp add: determineAirQualityStatus_def)

text \<open>
  Claim C7. The temperature status is critical exactly when the temperature is above 40,
  fever exactly when it is above 35 and at most 40, and normal exactly when it is at most
  35. Both comparisons are strict: 40.0 is fever and 35.0 is normal, while 40.0001 is
  critical and 35.0001 is fever. The weather normaliser reports this status for the
  temperature of the response.
\<close>

theorem temperature_status_bands:
  "(determineTemperatureStatus t = T_critical \<longleftrightarrow> t > 40)
   \<and> (determineTemperatureStatus t = T_fever \<longleftrightarrow> 35 < t \<and> t \<le> 40)
   \<and> (determineTemperatureStatus t = T_normal \<longleftrightarrow> t \<le> 35)
   \<and> determineTemperatureStatus 40.0 = T_fever
   \<and> determineTemperatureStatus 35.0 = T_normal
   \<and> determineTemperatureStatus 40.0001 = T_critical
   \<and> determineTemperatureStatus 35.0001 = T_fever
   \<and> TemperatureData.status (processWeatherData r) = determineTemperatureStatus (temp (main r))"
  by (auto simp add: determineTemperatureStatus_def processWeatherData_def Let_def)

subsection \<open>The seismic normaliser\<close>









subsection \<open>Ranges of the normalised values\<close>

lemma processed_aqi_bounds:
  "0 \<le> aqi (processAirQualityData r) \<and> aqi (processAirQualityData r) \<le> 500"
  using aqi_bounds
  by (cases "results r") (simp_all add: processAirQualityData_def Let_def)

lemma heat_island_bounds:
  "0 \<le> estimateHeatIslandEffect t \<and> estimateHeatIslandEffect t \<le> 5"
  by (simp add: estimateHeatIslandEffect_def)

text \<open>
  Claim C9, as stated, fails for the temperature: the weather normaliser hands the raw
  \<^verbatim>\<open>main.temp\<close> on unchanged. A response reporting 1000 degrees yields the temperature
  value 1000, outside the range from -50 to 60 that the validator documents.
\<close>

theorem temperature_not_clamped:
  "TemperatureData.temperature (processWeatherData scorching) = 1000
   \<and> \<not> (- 50 \<le> TemperatureData.temperature (processWeatherData scorching)
          \<and> TemperatureData.temperature (processWeatherData scorching) \<le> 60)"
  by (simp add: processWeatherData_def scorching_def Let_def)

text \<open>
  Claim C9, amended. Whatever the upstream measurements, the index computed by the
  air-quality normaliser lies between 0 and 500. The weather normaliser does not clamp:
  its temperature value is the raw \<^verbatim>\<open>main.temp\<close> of the response; only the heat-island
  effect derived from it is bounded, between 0 and 5.
\<close>

theorem normalised_value_ranges:
  "0 \<le> aqi (processAirQualityData a) \<and> aqi (processAirQualityData a) \<le> 500
   \<and> TemperatureData.temperature (processWeatherData w) = temp (main w)
   \<and> 0 \<le> TemperatureData.heatIslandEffect (processWeatherData w)
   \<and> TemperatureData.heatIslandEffect (processWeatherData w) \<le> 5"
  using processed_aqi_bounds [of a] heat_island_bounds [of "temp (main w)"]
  by (simp add: processWeatherData_def Let_def)

subsection \<open>The overall status\<close>

lemma overallHealthStatus_cases:
  "overallHealthStatus SEV_low = OH_excellent"
  "overallHealthStatus SEV_medium = OH_good"
  "overallHealthStatus SEV_high = OH_fair"
  "overallHealthStatus SEV_critical = OH_poor"
  by (simp_all add: overallHealthStatus_def)

lemma overallHealthStatus_range:
  "overallHealthStatus s = OH_excellent \<or> overallHealthStatus s = OH_good
   \<or> overallHealthStatus s = OH_fair \<or> overallHealthStatus s = OH_poor"
  "overallHealthStatus s \<noteq> OH_critical"
  by (simp_all add: overallHealthStatus_def)

text \<open>
  Claim C10. Whatever the three settled results (and the clock and the random draws), the
  status of \<^verbatim>\<open>overallHealth\<close> in the record returned by \<^verbatim>\<open>processCityVitals\<close> is the image of
  the severity of its score: low gives excellent, medium gives good, high gives fair and
  critical gives poor. So the status is one of excellent, good, fair and poor, never
  critical; a score of 0 has severity critical and is mapped to poor.
\<close>

theorem overall_status_never_critical:
  "OverallHealth.status (overallHealth (processCityVitals now r1 r2 r3 loc a e w)) =
     overallHealthStatus (determineSeverity
       (OverallHealth.score (overallHealth (processCityVitals now r1 r2 r3 loc a e w))))
   \<and> OverallHealth.status (overallHealth (processCityVitals now r1 r2 r3 loc a e w))
        \<in> {OH_excellent, OH_good, OH_fair, OH_poor}
   \<and> OverallHealth.status (overallHealth (processCityVitals now r1 r2 r3 loc a e w))
        \<noteq> OH_critical
   \<and> overallHealthStatus SEV_low = OH_excellent
   \<and> overallHealthStatus SEV_medium = OH_good
   \<and> overallHealthStatus SEV_high = OH_fair
   \<and> overallHealthStatus SEV_critical = OH_poor
   \<and> overallHealthStatus (determineSeverity 0) = OH_poor"
proof -
  obtain m where m: "processCityVitals now r1 r2 r3 loc a e w =
         m\<lparr>overallHealth :=
             \<lparr>OverallHealth.score = DiagnosticResult.overallScore (generateDiagnosis m),
              status = overallHealthStatus (DiagnosticResult.severity (generateDiagnosis m)),
              diagnosis = DiagnosticResult.diagnosis (generateDiagnosis m),
              recommendations = DiagnosticResult.recommendations (generateDiagnosis m)\<rparr>\<rparr>"
    using overallHealth_of_pipeline by blast
  have "determineSeverity 0 = SEV_critical" by (simp add: determineSeverity_def)
  then show ?thesis
    by (simp add: m severity_of_score overallHealthStatus_cases overallHealthStatus_range)
qed

end
